theory Spec2Isabelle
  imports Main "HOL-Library.Word"
begin

unbundle bit_operations_syntax

section \<open>The constants of fs.h\<close>

text \<open>
  \<^verbatim>\<open>fs.c\<close> takes \<^verbatim>\<open>FSSIZE\<close>, \<^verbatim>\<open>BLKSIZE\<close>, \<^verbatim>\<open>DREFSIZE\<close>, \<^verbatim>\<open>NAMESIZE\<close> and
  \<^verbatim>\<open>TOTAL_INODES\<close> from \<^verbatim>\<open>fs.h\<close>. They are parameters of every definition below.
\<close>

record config =
  FSSIZE :: nat
  BLKSIZE :: nat
  DREFSIZE :: nat
  NAMESIZE :: nat
  TOTAL_INODES :: nat

definition TOTAL_BLOCKS :: "config \<Rightarrow> nat" where
  "TOTAL_BLOCKS cfg = FSSIZE cfg div BLKSIZE cfg"

text \<open>
  Record sizes and field offsets follow the usual C layout of the two structs (2-byte
  \<^verbatim>\<open>unsigned short\<close>, 4-byte \<^verbatim>\<open>unsigned int\<close> and \<^verbatim>\<open>enum\<close>, natural alignment,
  little-endian): an inode is \<^verbatim>\<open>dref[DREFSIZE]\<close>, \<^verbatim>\<open>iref\<close>, \<^verbatim>\<open>total_ref\<close> and one byte
  of padding; an entry is \<^verbatim>\<open>name[NAMESIZE]\<close> padded to a multiple of four, followed by
  \<^verbatim>\<open>size\<close>, \<^verbatim>\<open>type\<close> and \<^verbatim>\<open>inode\<close>.
\<close>

definition sizeof_inode :: "config \<Rightarrow> nat" where
  "sizeof_inode cfg = 2 * DREFSIZE cfg + 4"

definition size_off :: "config \<Rightarrow> nat" where
  "size_off cfg = ((NAMESIZE cfg + 3) div 4) * 4"

definition type_off :: "config \<Rightarrow> nat" where
  "type_off cfg = size_off cfg + 4"

definition inode_off :: "config \<Rightarrow> nat" where
  "inode_off cfg = size_off cfg + 8"

definition sizeof_entry :: "config \<Rightarrow> nat" where
  "sizeof_entry cfg = size_off cfg + 12"

definition BLOCK_ENTRIES :: "config \<Rightarrow> nat" where
  "BLOCK_ENTRIES cfg = BLKSIZE cfg div sizeof_entry cfg"


section \<open>The image\<close>

type_synonym byte = "8 word"

datatype sector_types = SUPER | FREELIST | INODES | DATA

text \<open>\<^verbatim>\<open>enum entry_types { E_FILE = 0, E_DIR }\<close>, as the 32-bit values an entry stores.\<close>

abbreviation (input) E_FILE :: "32 word" where "E_FILE \<equiv> 0"
abbreviation (input) E_DIR :: "32 word" where "E_DIR \<equiv> 1"

record sector =
  sector_start :: "32 word"
  sector_size :: "32 word"

record metadata =
  total_blocks :: "32 word"
  total_inodes :: "32 word"
  block_bytes :: "32 word"
  sectors :: "sector_types \<Rightarrow> sector"

record inode =
  dref :: "nat \<Rightarrow> 16 word"
  iref :: "16 word"
  total_ref :: "8 word"

text \<open>
  The program reaches the image through four pointers: \<^verbatim>\<open>meta\<close> (the superblock),
  \<^verbatim>\<open>bitlist\<close> (the bitmap bytes), \<^verbatim>\<open>inodes\<close> (the inode table) and \<^verbatim>\<open>fs\<close> (the raw
  bytes, addressed by \<^verbatim>\<open>block_ref\<close>). The state has one component for each. The first
  three are kept as the typed arrays the pointers are used as; \<^verbatim>\<open>fs\<close> is a byte array
  indexed by the offset from the start of the image, and directory entries, indirect
  reference tables and file contents are all read from and written to these bytes, as
  the casts of \<^verbatim>\<open>block_ref\<close> do. \<^verbatim>\<open>loadfs\<close> only sets the three section pointers and
  has no counterpart here.

  In C the three sections are bytes of the image as well, and nothing bounds an index
  into them: a block index below the data sector handed to \<^verbatim>\<open>block_ref\<close>, an inode
  index past the inode table and a bit index past the bitmap reach the bytes of another
  sector, where the model reads and writes the component it is handed. The state stands
  for the image only as far as the accesses stay inside their sectors; the predicates
  \<open>layout_ok\<close>, \<open>inode_ok\<close>, \<open>freeable\<close> and \<open>walk_ok\<close> below say when they do, and the
  theorems that speak of every state assume them.
\<close>

record state =
  meta :: metadata
  bitlist :: "nat \<Rightarrow> byte"
  inodes :: "nat \<Rightarrow> inode"
  fs :: "nat \<Rightarrow> byte"

definition zero_sector :: sector where
  "zero_sector = \<lparr>sector_start = 0, sector_size = 0\<rparr>"

definition zero_meta :: metadata where
  "zero_meta = \<lparr>total_blocks = 0, total_inodes = 0, block_bytes = 0,
     sectors = (\<lambda>_. zero_sector)\<rparr>"

definition zero_inode :: inode where
  "zero_inode = \<lparr>dref = (\<lambda>_. 0), iref = 0, total_ref = 0\<rparr>"

text \<open>
  \<^verbatim>\<open>block_ref\<close> as an offset from the start of the image. The product is not reduced
  modulo \<open>2 ^ 32\<close>: a block index read from an inode is below \<open>2 ^ 16\<close>.
\<close>

definition block_ref :: "config \<Rightarrow> nat \<Rightarrow> nat" where
  "block_ref cfg n = BLKSIZE cfg * n"

text \<open>An \<^verbatim>\<open>int\<close> converted to \<^verbatim>\<open>unsigned int\<close>.\<close>

definition to_uint :: "int \<Rightarrow> nat" where
  "to_uint x = nat (x mod 2 ^ 32)"

subsection \<open>Raw memory access\<close>

definition rd16 :: "(nat \<Rightarrow> byte) \<Rightarrow> nat \<Rightarrow> 16 word" where
  "rd16 f a = word_rcat [f (a + 1), f a]"

definition wr16 :: "(nat \<Rightarrow> byte) \<Rightarrow> nat \<Rightarrow> 16 word \<Rightarrow> (nat \<Rightarrow> byte)" where
  "wr16 f a w = f(a := ucast w, a + 1 := ucast (drop_bit 8 w))"

definition rd32 :: "(nat \<Rightarrow> byte) \<Rightarrow> nat \<Rightarrow> 32 word" where
  "rd32 f a = word_rcat [f (a + 3), f (a + 2), f (a + 1), f a]"

definition wr32 :: "(nat \<Rightarrow> byte) \<Rightarrow> nat \<Rightarrow> 32 word \<Rightarrow> (nat \<Rightarrow> byte)" where
  "wr32 f a w = f(a := ucast w, a + 1 := ucast (drop_bit 8 w),
     a + 2 := ucast (drop_bit 16 w), a + 3 := ucast (drop_bit 24 w))"

text \<open>\<^verbatim>\<open>bzero(p, n)\<close>\<close>

definition bzero :: "(nat \<Rightarrow> byte) \<Rightarrow> nat \<Rightarrow> nat \<Rightarrow> (nat \<Rightarrow> byte)" where
  "bzero f p n = (\<lambda>a. if p \<le> a \<and> a < p + n then 0 else f a)"

text \<open>Storing the bytes \<open>bs\<close> from address \<open>p\<close> on.\<close>

definition store :: "(nat \<Rightarrow> byte) \<Rightarrow> nat \<Rightarrow> byte list \<Rightarrow> (nat \<Rightarrow> byte)" where
  "store f p bs = (\<lambda>a. if p \<le> a \<and> a < p + length bs then bs ! (a - p) else f a)"

text \<open>The \<open>n\<close> bytes from address \<open>p\<close> on.\<close>

definition load :: "(nat \<Rightarrow> byte) \<Rightarrow> nat \<Rightarrow> nat \<Rightarrow> byte list" where
  "load f p n = map (\<lambda>k. f (p + k)) [0..<n]"

text \<open>
  \<^verbatim>\<open>strncpy(p, name, n)\<close>: the first \<open>n\<close> characters of the name, padded with zero bytes
  up to \<open>n\<close> (and not terminated when the name has \<open>n\<close> characters or more).
\<close>

definition strncpy :: "(nat \<Rightarrow> byte) \<Rightarrow> nat \<Rightarrow> string \<Rightarrow> nat \<Rightarrow> (nat \<Rightarrow> byte)" where
  "strncpy f p name n =
     store f p (map of_char (take n name) @ replicate (n - length name) 0)"

text \<open>
  \<^verbatim>\<open>strcmp(name, p) == 0\<close> for a name without zero byte: the bytes at \<open>p\<close> spell the
  name and a zero byte follows.
\<close>

definition name_matches :: "(nat \<Rightarrow> byte) \<Rightarrow> nat \<Rightarrow> string \<Rightarrow> bool" where
  "name_matches f p name =
     (load f p (length name) = map of_char name \<and> f (p + length name) = 0)"

subsection \<open>The fields of an entry at address \<open>p\<close>\<close>

definition entry_size :: "config \<Rightarrow> (nat \<Rightarrow> byte) \<Rightarrow> nat \<Rightarrow> 32 word" where
  "entry_size cfg f p = rd32 f (p + size_off cfg)"

definition entry_type :: "config \<Rightarrow> (nat \<Rightarrow> byte) \<Rightarrow> nat \<Rightarrow> 32 word" where
  "entry_type cfg f p = rd32 f (p + type_off cfg)"

definition entry_inode :: "config \<Rightarrow> (nat \<Rightarrow> byte) \<Rightarrow> nat \<Rightarrow> 32 word" where
  "entry_inode cfg f p = rd32 f (p + inode_off cfg)"

definition set_entry_size :: "config \<Rightarrow> nat \<Rightarrow> 32 word \<Rightarrow> state \<Rightarrow> state" where
  "set_entry_size cfg p v st = st\<lparr>fs := wr32 (fs st) (p + size_off cfg) v\<rparr>"

definition set_entry_type :: "config \<Rightarrow> nat \<Rightarrow> 32 word \<Rightarrow> state \<Rightarrow> state" where
  "set_entry_type cfg p v st = st\<lparr>fs := wr32 (fs st) (p + type_off cfg) v\<rparr>"

definition set_entry_inode :: "config \<Rightarrow> nat \<Rightarrow> 32 word \<Rightarrow> state \<Rightarrow> state" where
  "set_entry_inode cfg p v st = st\<lparr>fs := wr32 (fs st) (p + inode_off cfg) v\<rparr>"

definition set_inode :: "nat \<Rightarrow> inode \<Rightarrow> state \<Rightarrow> state" where
  "set_inode i v st = st\<lparr>inodes := (inodes st)(i := v)\<rparr>"


section \<open>Bit list manipulation\<close>

definition bitlist_up :: "state \<Rightarrow> nat \<Rightarrow> state" where
  "bitlist_up st n =
     st\<lparr>bitlist := (bitlist st)(n div 8 := bitlist st (n div 8) OR push_bit (n mod 8) 1)\<rparr>"

definition bitlist_down :: "state \<Rightarrow> nat \<Rightarrow> state" where
  "bitlist_down st n =
     st\<lparr>bitlist := (bitlist st)(n div 8 := bitlist st (n div 8) AND NOT (push_bit (n mod 8) 1))\<rparr>"

definition bitlist_status :: "state \<Rightarrow> nat \<Rightarrow> byte" where
  "bitlist_status st n = bitlist st (n div 8) AND push_bit (n mod 8) 1"


section \<open>Allocation\<close>

text \<open>The loop of \<^verbatim>\<open>get_data_block\<close>, from the index \<open>i\<close> on.\<close>

function get_data_block_from :: "state \<Rightarrow> nat \<Rightarrow> nat \<times> state" where
  "get_data_block_from st i =
     (if i < unat (total_blocks (meta st))
      then (if bitlist_status st i = 0 then (i, bitlist_up st i)
            else get_data_block_from st (i + 1))
      else (i, st))"
  by pat_completeness auto
termination
  by (relation "measure (\<lambda>(st, i). unat (total_blocks (meta st)) - i)") auto

definition get_data_block :: "state \<Rightarrow> nat \<times> state" where
  "get_data_block st =
     get_data_block_from st (unat (sector_start (sectors (meta st) DATA)))"

function get_inode_from :: "config \<Rightarrow> state \<Rightarrow> nat \<Rightarrow> nat" where
  "get_inode_from cfg st i =
     (if i < TOTAL_INODES cfg
      then (if total_ref (inodes st i) = 0 then i else get_inode_from cfg st (i + 1))
      else i)"
  by pat_completeness auto
termination
  by (relation "measure (\<lambda>(cfg, st, i). TOTAL_INODES cfg - i)") auto

definition get_inode :: "config \<Rightarrow> state \<Rightarrow> nat" where
  "get_inode cfg st = get_inode_from cfg st 0"


section \<open>Walking an inode\<close>

text \<open>
  \<^verbatim>\<open>FOREACH_BLOCK\<close>: the block of reference \<open>i\<close> is \<^verbatim>\<open>dref[i]\<close> below \<^verbatim>\<open>DREFSIZE\<close> and
  \<^verbatim>\<open>indirect[i - DREFSIZE]\<close> above, where \<^verbatim>\<open>indirect\<close> is the block \<^verbatim>\<open>iref\<close> read as
  16-bit values. No loop body of the program writes to the inode or to the raw bytes
  while it runs, so the blocks are listed first.
\<close>

definition indirect :: "config \<Rightarrow> state \<Rightarrow> inode \<Rightarrow> nat \<Rightarrow> 16 word" where
  "indirect cfg st ip k = rd16 (fs st) (block_ref cfg (unat (iref ip)) + 2 * k)"

definition block_at :: "config \<Rightarrow> state \<Rightarrow> inode \<Rightarrow> nat \<Rightarrow> nat" where
  "block_at cfg st ip i =
     (if i < DREFSIZE cfg then unat (dref ip i)
      else unat (indirect cfg st ip (i - DREFSIZE cfg)))"

definition blocks_of :: "config \<Rightarrow> state \<Rightarrow> inode \<Rightarrow> nat list" where
  "blocks_of cfg st ip = map (block_at cfg st ip) [0..<unat (total_ref ip)]"

text \<open>\<^verbatim>\<open>FOREACH_ENTRY\<close>: the addresses of the entry slots, in the order of the two loops.\<close>

definition block_entries :: "config \<Rightarrow> nat \<Rightarrow> nat list" where
  "block_entries cfg b =
     map (\<lambda>j. block_ref cfg b + j * sizeof_entry cfg) [0..<BLOCK_ENTRIES cfg]"

definition entries_of :: "config \<Rightarrow> state \<Rightarrow> inode \<Rightarrow> nat list" where
  "entries_of cfg st ip = concat (map (block_entries cfg) (blocks_of cfg st ip))"

text \<open>\<^verbatim>\<open>search_entry\<close>: the first slot whose name matches; \<open>None\<close> is \<^verbatim>\<open>NULL\<close>.\<close>

definition search_entry :: "config \<Rightarrow> state \<Rightarrow> inode \<Rightarrow> string \<Rightarrow> nat option" where
  "search_entry cfg st ip name =
     find (\<lambda>p. name_matches (fs st) p name) (entries_of cfg st ip)"

definition entry_count :: "config \<Rightarrow> state \<Rightarrow> inode \<Rightarrow> int" where
  "entry_count cfg st ip =
     int (length (filter (\<lambda>p. entry_inode cfg (fs st) p \<noteq> 0) (entries_of cfg st ip)))"


section \<open>Growing an inode\<close>

text \<open>
  Both functions return a C \<^verbatim>\<open>int\<close>, \<open>- 1\<close> on failure. Their messages on
  \<^verbatim>\<open>stderr\<close> are left out.
\<close>

definition expand_indirect :: "config \<Rightarrow> state \<Rightarrow> nat \<Rightarrow> nat \<Rightarrow> int \<times> state" where
  "expand_indirect cfg st i block =
     (let (r, st1) =
        (if iref (inodes st i) = 0
         then (let (b, st') = get_data_block st
               in if b = unat (total_blocks (meta st')) then (- 1 :: int, st')
                  else (0, set_inode i ((inodes st' i)\<lparr>iref := of_nat b\<rparr>) st'))
         else (0, st))
      in if r = - 1 then (- 1, st1)
         else (let ip = inodes st1 i
               in (0, st1\<lparr>fs := wr16 (fs st1)
                     (block_ref cfg (unat (iref ip)) + 2 * (unat (total_ref ip) - DREFSIZE cfg))
                     (of_nat block)\<rparr>)))"

definition expand :: "config \<Rightarrow> state \<Rightarrow> nat \<Rightarrow> int \<times> state" where
  "expand cfg st i =
     (let (block, st1) = get_data_block st
      in if block = unat (total_blocks (meta st1)) then (- 1, st1)
         else (let ip = inodes st1 i;
                   st2 = (if unat (total_ref ip) < DREFSIZE cfg
                          then set_inode i (ip\<lparr>dref := (dref ip)(unat (total_ref ip) := of_nat block)\<rparr>) st1
                          else snd (expand_indirect cfg st1 i block));
                   ip2 = inodes st2 i
               in (int block, set_inode i (ip2\<lparr>total_ref := total_ref ip2 + 1\<rparr>) st2)))"


section \<open>Faults, reports and the host file\<close>

text \<open>
  A fault is an access the C program makes outside what it owns (the process is
  killed); a report is a message of the program on \<^verbatim>\<open>stderr\<close>.
\<close>

datatype fault = NullDeref | BadLength | DivByZero | BadAddress

datatype report = OpenFailed | InvalidSubdir string | EntryNotFound string | NotFound

text \<open>
  The descriptor \<^verbatim>\<open>open\<close> returns: a regular file, of which \<^verbatim>\<open>read\<close> hands out the next
  bytes (as many as asked for, while there are any), or a descriptor on which \<^verbatim>\<open>read\<close>
  fails (a directory).
\<close>

datatype fd = Bytes "byte list" | Failing


section \<open>Directory entries\<close>

text \<open>
  \<^verbatim>\<open>get_entry\<close>: \<open>dir\<close> is the address of the entry of the directory; the result is
  the address of the entry found or added, \<open>None\<close> for \<^verbatim>\<open>NULL\<close>.
\<close>

definition get_entry ::
  "config \<Rightarrow> state \<Rightarrow> nat \<Rightarrow> string \<Rightarrow> fault + (nat option \<times> state)" where
  "get_entry cfg st dir name =
     (let d = unat (entry_inode cfg (fs st) dir)
      in case search_entry cfg st (inodes st d) name of
           Some p \<Rightarrow> Inr (Some p, st)
         | None \<Rightarrow>
            (let (grown, slot, st1) =
               (case search_entry cfg st (inodes st d) [] of
                  Some p \<Rightarrow> (True, Some p, st)
                | None \<Rightarrow>
                   (let (r, st') = expand cfg st d
                    in if r = - 1 then (False, None, st')
                       else (True, search_entry cfg st' (inodes st' d) [], st')))
             in if grown
                then (let inode = get_inode cfg st1
                      in if inode = TOTAL_INODES cfg then Inr (None, st1)
                         else (let (r, st3) = expand cfg (set_inode inode zero_inode st1) inode
                               in if r = - 1 then Inr (None, st3)
                                  else (case slot of
                                          None \<Rightarrow> Inl NullDeref
                                        | Some p \<Rightarrow>
                                           Inr (Some p,
                                             set_entry_size cfg p 0
                                               (set_entry_type cfg p E_DIR
                                                 (set_entry_inode cfg p (of_nat inode)
                                                   (st3\<lparr>fs := strncpy (fs st3) p name (NAMESIZE cfg)\<rparr>)))))))
                else Inr (None, st1)))"


section \<open>File contents\<close>

text \<open>
  The loop of \<^verbatim>\<open>write_entry\<close>: \<open>p\<close> is the entry, \<open>ino\<close> the index of its inode,
  \<open>block_ptr\<close> the address of the current block and \<open>i\<close> the offset in it. \<^verbatim>\<open>read\<close> is
  asked for \<^verbatim>\<open>BLKSIZE - i\<close> bytes; \<open>i\<close> never exceeds \<^verbatim>\<open>BLKSIZE\<close>.
\<close>

function write_entry_loop ::
  "config \<Rightarrow> state \<Rightarrow> nat \<Rightarrow> nat \<Rightarrow> fd \<Rightarrow> nat \<Rightarrow> nat \<Rightarrow> state" where
  "write_entry_loop cfg st p ino file i block_ptr =
     (case file of
        Failing \<Rightarrow> st
      | Bytes bs \<Rightarrow>
         (let n = min (BLKSIZE cfg - i) (length bs)
          in if n = 0 then st
             else (let st1 = st\<lparr>fs := store (fs st) (block_ptr + i) (take n bs)\<rparr>;
                       st2 = set_entry_size cfg p (entry_size cfg (fs st1) p + of_nat n) st1
                   in if i = BLKSIZE cfg
                      then (let (block, st3) = expand cfg st2 ino
                            in if block = - 1 then st3
                               else write_entry_loop cfg st3 p ino (Bytes (drop n bs)) 0
                                      (block_ref cfg (to_uint block)))
                      else write_entry_loop cfg st2 p ino (Bytes (drop n bs)) (i + n) block_ptr)))"
  by pat_completeness auto
termination
  by (relation "measure (\<lambda>(cfg, st, p, ino, file, i, block_ptr).
        case file of Failing \<Rightarrow> 0 | Bytes bs \<Rightarrow> length bs)") auto

definition write_entry :: "config \<Rightarrow> state \<Rightarrow> nat \<Rightarrow> fd \<Rightarrow> int \<times> state" where
  "write_entry cfg st p file =
     (let ino = unat (entry_inode cfg (fs st) p);
          block_ptr = block_ref cfg (unat (dref (inodes st ino) 0));
          st' = write_entry_loop cfg (set_entry_size cfg p 0 st) p ino file 0 block_ptr
      in (sint (entry_size cfg (fs st') p), st'))"

text \<open>
  The loop of \<^verbatim>\<open>entry_read\<close> over the blocks of the inode; \<open>sz\<close> is the C \<^verbatim>\<open>int size\<close>. A
  negative count handed to \<^verbatim>\<open>fwrite\<close> is a fault.
\<close>

fun entry_read_blocks :: "config \<Rightarrow> (nat \<Rightarrow> byte) \<Rightarrow> int \<Rightarrow> nat list \<Rightarrow> fault + byte list" where
  "entry_read_blocks cfg f sz [] = Inr []"
| "entry_read_blocks cfg f sz (block # blocks) =
     (let n = (if sz > int (BLKSIZE cfg) then int (BLKSIZE cfg) else sz)
      in if n < 0 then Inl BadLength
         else (case entry_read_blocks cfg f (sz - n) blocks of
                 Inl e \<Rightarrow> Inl e
               | Inr out \<Rightarrow> Inr (load f (block_ref cfg block) (nat n) @ out)))"

definition entry_read :: "config \<Rightarrow> state \<Rightarrow> nat \<Rightarrow> fault + byte list" where
  "entry_read cfg st p =
     entry_read_blocks cfg (fs st) (sint (entry_size cfg (fs st) p))
       (blocks_of cfg st (inodes st (unat (entry_inode cfg (fs st) p))))"


section \<open>Removal\<close>

definition entry_remove :: "config \<Rightarrow> state \<Rightarrow> nat \<Rightarrow> state" where
  "entry_remove cfg st p =
     (let ino = unat (entry_inode cfg (fs st) p);
          ip = inodes st ino;
          st1 = fold (\<lambda>block s. bitlist_down s block) (blocks_of cfg st ip) st;
          st2 = (if iref ip > 0 then bitlist_down st1 (unat (iref ip)) else st1);
          st3 = set_inode ino zero_inode st2
      in st3\<lparr>fs := bzero (fs st3) p (sizeof_entry cfg)\<rparr>)"

text \<open>
  \<^verbatim>\<open>entry_remove_path\<close>: \<open>ino\<close> is the index of the directory inode, the list holds the
  components \<^verbatim>\<open>strtok\<close> has not handed out yet.
\<close>

fun entry_remove_path ::
  "config \<Rightarrow> state \<Rightarrow> nat \<Rightarrow> string list \<Rightarrow> report option \<times> state" where
  "entry_remove_path cfg st ino [] = (None, st)"
| "entry_remove_path cfg st ino (name # rest) =
     (case search_entry cfg st (inodes st ino) name of
        None \<Rightarrow> (Some (EntryNotFound name), st)
      | Some p \<Rightarrow>
         (if entry_type cfg (fs st) p = E_DIR
          then (let e = unat (entry_inode cfg (fs st) p);
                    (r, st1) = entry_remove_path cfg st e rest
                in if entry_count cfg st1 (inodes st1 e) = 0
                   then (r, entry_remove cfg st1 p)
                   else (r, st1))
          else if entry_type cfg (fs st) p = E_FILE
          then (None, entry_remove cfg st p)
          else (None, st)))"


section \<open>Paths\<close>

text \<open>
  The components \<^verbatim>\<open>strtok(path, "/")\<close> hands out, one call after the other: the
  maximal runs of characters other than \<^verbatim>\<open>/\<close>, up to the first zero byte.
\<close>

fun split_path :: "string \<Rightarrow> string \<Rightarrow> string list" where
  "split_path cur [] = (if cur = [] then [] else [cur])"
| "split_path cur (c # cs) =
     (if c = CHR 0x00 then (if cur = [] then [] else [cur])
      else if c = CHR ''/'' then (if cur = [] then split_path [] cs else cur # split_path [] cs)
      else split_path (cur @ [c]) cs)"

definition strtok :: "string \<Rightarrow> string list" where
  "strtok path = split_path [] path"


section \<open>Format\<close>

definition set_sector_start :: "sector_types \<Rightarrow> 32 word \<Rightarrow> metadata \<Rightarrow> metadata" where
  "set_sector_start k v m = m\<lparr>sectors := (sectors m)(k := (sectors m k)\<lparr>sector_start := v\<rparr>)\<rparr>"

definition set_sector_size :: "sector_types \<Rightarrow> 32 word \<Rightarrow> metadata \<Rightarrow> metadata" where
  "set_sector_size k v m = m\<lparr>sectors := (sectors m)(k := (sectors m k)\<lparr>sector_size := v\<rparr>)\<rparr>"

text \<open>
  \<^verbatim>\<open>setup_sectors\<close>, one assignment after the other. The two divisions by a quantity
  that may be zero are faults.
\<close>

definition setup_sectors :: "config \<Rightarrow> metadata \<Rightarrow> fault + metadata" where
  "setup_sectors cfg m0 =
     (if BLKSIZE cfg = 0 \<or> BLKSIZE cfg div sizeof_inode cfg = 0 then Inl DivByZero
      else (let m1 = m0\<lparr>total_blocks := of_nat (TOTAL_BLOCKS cfg)\<rparr>;
                m2 = m1\<lparr>total_blocks := of_nat (TOTAL_INODES cfg)\<rparr>;
                m3 = m2\<lparr>block_bytes := of_nat (BLKSIZE cfg)\<rparr>;
                m4 = set_sector_start SUPER 0 m3;
                m5 = set_sector_size SUPER 1 m4;
                m6 = set_sector_start FREELIST (sector_size (sectors m5 SUPER)) m5;
                m7 = set_sector_size FREELIST (of_nat ((TOTAL_BLOCKS cfg div 8) div BLKSIZE cfg)) m6;
                m8 = set_sector_start INODES
                       (sector_start (sectors m7 FREELIST) + sector_size (sectors m7 FREELIST)) m7;
                m9 = set_sector_size INODES
                       (of_nat (TOTAL_INODES cfg div (BLKSIZE cfg div sizeof_inode cfg))) m8;
                m10 = set_sector_start DATA
                       (sector_start (sectors m9 INODES) + sector_size (sectors m9 INODES)) m9
            in Inr (set_sector_size DATA
                 (total_blocks m10
                    - (sector_size (sectors m10 FREELIST) + sector_size (sectors m10 INODES))) m10)))"

text \<open>
  \<^verbatim>\<open>create_root\<close> does not test what \<^verbatim>\<open>expand\<close> returns: with \<open>- 1\<close> the entry would be
  written at \<^verbatim>\<open>block_ref(-1)\<close>, far outside the image.
\<close>

definition create_root :: "config \<Rightarrow> state \<Rightarrow> fault + state" where
  "create_root cfg st =
     (let (block, st1) = expand cfg st 0
      in if block = - 1 then Inl BadAddress
         else (let p = block_ref cfg (to_uint block);
                   st2 = st1\<lparr>fs := (fs st1)(p := of_char CHR ''/'')\<rparr>
               in Inr (set_entry_size cfg p 0
                        (set_entry_inode cfg p 0 (set_entry_type cfg p E_DIR st2)))))"

text \<open>The two loops of \<^verbatim>\<open>formatfs\<close> that mark the blocks of a sector used.\<close>

definition mark_sector :: "sector_types \<Rightarrow> state \<Rightarrow> state" where
  "mark_sector k st =
     fold (\<lambda>i s. bitlist_up s (unat (sector_start (sectors (meta s) k) + of_nat i)))
       [0..<unat (sector_size (sectors (meta st) k))] st"

definition formatfs :: "config \<Rightarrow> fault + state" where
  "formatfs cfg =
     (case setup_sectors cfg zero_meta of
        Inl e \<Rightarrow> Inl e
      | Inr m \<Rightarrow>
         create_root cfg
           (mark_sector INODES
             (mark_sector FREELIST
               (bitlist_up \<lparr>meta = m, bitlist = (\<lambda>_. 0), inodes = (\<lambda>_. zero_inode),
                            fs = (\<lambda>_. 0)\<rparr> 0))))"


section \<open>Add, remove, extract\<close>

text \<open>
  The loop of \<^verbatim>\<open>addfilefs\<close> over the components of the path, and what follows it;
  \<open>p\<close> is \<^verbatim>\<open>entry_ptr\<close>.
\<close>

fun addfilefs_from ::
  "config \<Rightarrow> state \<Rightarrow> nat \<Rightarrow> fd \<Rightarrow> string list \<Rightarrow> fault + (report option \<times> state)" where
  "addfilefs_from cfg st p file [] =
     Inr (None, set_entry_type cfg p E_FILE (snd (write_entry cfg st p file)))"
| "addfilefs_from cfg st p file (name # rest) =
     (case get_entry cfg st p name of
        Inl e \<Rightarrow> Inl e
      | Inr (None, st1) \<Rightarrow> Inr (Some (InvalidSubdir name), st1)
      | Inr (Some q, st1) \<Rightarrow>
         (if entry_type cfg (fs st1) q = E_FILE then Inr (Some (InvalidSubdir name), st1)
          else addfilefs_from cfg st1 q file rest))"

text \<open>\<open>file\<close> is what \<^verbatim>\<open>open(fname, O_RDONLY)\<close> gives, \<open>None\<close> when it fails.\<close>

definition addfilefs ::
  "config \<Rightarrow> state \<Rightarrow> string \<Rightarrow> fd option \<Rightarrow> fault + (report option \<times> state)" where
  "addfilefs cfg st fname file =
     (case file of
        None \<Rightarrow> Inr (Some OpenFailed, st)
      | Some d \<Rightarrow>
         addfilefs_from cfg st (block_ref cfg (unat (dref (inodes st 0) 0))) d (strtok fname))"

definition removefilefs :: "config \<Rightarrow> state \<Rightarrow> string \<Rightarrow> report option \<times> state" where
  "removefilefs cfg st fname = entry_remove_path cfg st 0 (strtok fname)"

text \<open>
  The loop of \<^verbatim>\<open>extractfilefs\<close> and the read after it; \<open>ino\<close> is the index of the
  current directory inode, \<open>e\<close> is \<^verbatim>\<open>entry_ptr\<close>. The result is the message on
  \<^verbatim>\<open>stderr\<close>, if any, and the bytes written to \<^verbatim>\<open>stdout\<close>.
\<close>

fun extractfilefs_from ::
  "config \<Rightarrow> state \<Rightarrow> nat \<Rightarrow> nat option \<Rightarrow> string list \<Rightarrow> fault + (report option \<times> byte list)" where
  "extractfilefs_from cfg st ino e [] =
     (case e of
        None \<Rightarrow> Inl NullDeref
      | Some p \<Rightarrow> (case entry_read cfg st p of Inl f \<Rightarrow> Inl f | Inr out \<Rightarrow> Inr (None, out)))"
| "extractfilefs_from cfg st ino e (name # rest) =
     (case search_entry cfg st (inodes st ino) name of
        None \<Rightarrow> Inr (Some NotFound, [])
      | Some p \<Rightarrow>
         (if entry_type cfg (fs st) p = E_DIR
          then extractfilefs_from cfg st (unat (entry_inode cfg (fs st) p)) (Some p) rest
          else extractfilefs_from cfg st ino (Some p) []))"

definition extractfilefs ::
  "config \<Rightarrow> state \<Rightarrow> string \<Rightarrow> fault + (report option \<times> byte list)" where
  "extractfilefs cfg st fname = extractfilefs_from cfg st 0 None (strtok fname)"




section \<open>Paths that resolve\<close>

text \<open>
  The walk of \<^verbatim>\<open>extractfilefs\<close> and \<^verbatim>\<open>entry_remove_path\<close> from the directory inode
  \<open>ino\<close> along the components of a path, as the claims about paths speak of it.
  \<open>dir_target\<close> gives the entry the walk ends at when every component resolves to a
  directory entry; \<open>unresolved\<close> says that the walk comes to a component that its
  directory does not hold; \<open>dirs_not_empty\<close> says that every directory the walk enters
  holds at least one live entry.
\<close>

fun dir_target :: "config \<Rightarrow> state \<Rightarrow> nat \<Rightarrow> string list \<Rightarrow> nat option" where
  "dir_target cfg st ino [] = None"
| "dir_target cfg st ino (name # rest) =
     (case search_entry cfg st (inodes st ino) name of
        None \<Rightarrow> None
      | Some p \<Rightarrow>
         (if entry_type cfg (fs st) p = E_DIR
          then (if rest = [] then Some p
                else dir_target cfg st (unat (entry_inode cfg (fs st) p)) rest)
          else None))"




section \<open>Accesses that stay in their sectors\<close>

text \<open>
  \<^verbatim>\<open>struct metadata\<close> has three counts and four sectors of two fields, 44 bytes.
  \<open>layout_ok\<close>: the metadata ends before the bitmap starts, the sectors follow each other
  without overlap, and the data sector starts inside the image.
\<close>

definition sizeof_metadata :: nat where
  "sizeof_metadata = 44"

definition layout_ok :: "config \<Rightarrow> state \<Rightarrow> bool" where
  "layout_ok cfg st =
     (let freelist = sectors (meta st) FREELIST;
          table = sectors (meta st) INODES;
          data = sectors (meta st) DATA
      in sizeof_metadata \<le> block_ref cfg (unat (sector_start freelist))
         \<and> unat (sector_start freelist) + unat (sector_size freelist) \<le> unat (sector_start table)
         \<and> unat (sector_start table) + unat (sector_size table) \<le> unat (sector_start data)
         \<and> unat (sector_start data) \<le> TOTAL_BLOCKS cfg)"

text \<open>
  The record of inode \<open>k\<close> lies in the blocks of the inode table; the byte of bit \<open>n\<close> lies
  in the blocks of the bitmap; block \<open>b\<close> is a block of the image at or after the start
  of the data sector.
\<close>

definition in_table :: "config \<Rightarrow> state \<Rightarrow> nat \<Rightarrow> bool" where
  "in_table cfg st k =
     ((k + 1) * sizeof_inode cfg \<le> BLKSIZE cfg * unat (sector_size (sectors (meta st) INODES)))"

definition in_bitmap :: "config \<Rightarrow> state \<Rightarrow> nat \<Rightarrow> bool" where
  "in_bitmap cfg st n =
     (n div 8 < BLKSIZE cfg * unat (sector_size (sectors (meta st) FREELIST)))"

definition in_data :: "config \<Rightarrow> state \<Rightarrow> nat \<Rightarrow> bool" where
  "in_data cfg st b =
     (unat (sector_start (sectors (meta st) DATA)) \<le> b \<and> b < TOTAL_BLOCKS cfg)"

text \<open>
  \<open>inode_ok\<close>: walking inode \<open>k\<close> with \<^verbatim>\<open>FOREACH_BLOCK\<close> reads a record of the inode
  table and, when the chain is longer than \<^verbatim>\<open>DREFSIZE\<close>, a reference table that lies
  inside a data block, and every block it yields is a data block. \<open>freeable\<close>: the bits
  that \<^verbatim>\<open>entry_remove\<close> clears for inode \<open>k\<close> are bits of the bitmap.
\<close>

definition inode_ok :: "config \<Rightarrow> state \<Rightarrow> nat \<Rightarrow> bool" where
  "inode_ok cfg st k =
     (in_table cfg st k
      \<and> list_all (in_data cfg st) (blocks_of cfg st (inodes st k))
      \<and> (unat (total_ref (inodes st k)) \<le> DREFSIZE cfg
         \<or> in_data cfg st (unat (iref (inodes st k)))
           \<and> 2 * (unat (total_ref (inodes st k)) - DREFSIZE cfg) \<le> BLKSIZE cfg))"

definition freeable :: "config \<Rightarrow> state \<Rightarrow> nat \<Rightarrow> bool" where
  "freeable cfg st k =
     (list_all (in_bitmap cfg st) (blocks_of cfg st (inodes st k))
      \<and> in_bitmap cfg st (unat (iref (inodes st k))))"

text \<open>
  \<open>walk_ok\<close>: every inode that the walk from the directory inode \<open>ino\<close> along the
  components reads, the inode of the last directory entry included, is \<open>inode_ok\<close>.
\<close>

fun walk_ok :: "config \<Rightarrow> state \<Rightarrow> nat \<Rightarrow> string list \<Rightarrow> bool" where
  "walk_ok cfg st ino [] = inode_ok cfg st ino"
| "walk_ok cfg st ino (name # rest) =
     (inode_ok cfg st ino
      \<and> (case search_entry cfg st (inodes st ino) name of
           None \<Rightarrow> True
         | Some p \<Rightarrow>
            (if entry_type cfg (fs st) p = E_DIR
             then walk_ok cfg st (unat (entry_inode cfg (fs st) p)) rest
             else True)))"


section \<open>Four configurations and the images the program builds in them\<close>

text \<open>
  \<open>cfg0\<close> has 64-byte blocks: 512 blocks, of which one holds the bitmap and one the
  inode table (eight inodes of eight bytes), and entries of twenty bytes, three to a
  block. \<open>cfg1\<close> differs in the number of inodes, \<open>cfg2\<close> in the size of the image,
  \<open>cfg3\<close> in the layout of inodes and entries.
\<close>

definition cfg0 :: config where
  "cfg0 = \<lparr>FSSIZE = 32768, BLKSIZE = 64, DREFSIZE = 2, NAMESIZE = 8, TOTAL_INODES = 8\<rparr>"

definition cfg1 :: config where
  "cfg1 = \<lparr>FSSIZE = 32768, BLKSIZE = 64, DREFSIZE = 2, NAMESIZE = 8, TOTAL_INODES = 11\<rparr>"

definition cfg2 :: config where
  "cfg2 = \<lparr>FSSIZE = 262144, BLKSIZE = 64, DREFSIZE = 2, NAMESIZE = 8, TOTAL_INODES = 8\<rparr>"

definition cfg3 :: config where
  "cfg3 = \<lparr>FSSIZE = 32768, BLKSIZE = 64, DREFSIZE = 1, NAMESIZE = 32, TOTAL_INODES = 10\<rparr>"

text \<open>
  The image \<^verbatim>\<open>formatfs\<close> leaves under \<open>cfg0\<close>: blocks 0 to 2 are the superblock, the
  bitmap and the inode table, block 3 (address 192) is the root directory with the
  entry \<^verbatim>\<open>/\<close> in its first slot.
\<close>

definition img0 :: state where
  "img0 =
     \<lparr>meta =
        \<lparr>total_blocks = 8, total_inodes = 0, block_bytes = 64,
           sectors =
             (\<lambda>_. \<lparr>sector_start = 0, sector_size = 0\<rparr>)
             (SUPER := \<lparr>sector_start = 0, sector_size = 1\<rparr>,
              FREELIST := \<lparr>sector_start = 1, sector_size = 1\<rparr>,
              INODES := \<lparr>sector_start = 2, sector_size = 1\<rparr>,
              DATA := \<lparr>sector_start = 3, sector_size = 6\<rparr>)\<rparr>,
      bitlist = (\<lambda>_. 0)(0 := 15),
      inodes =
        (\<lambda>_. \<lparr>dref = \<lambda>_. 0, iref = 0, total_ref = 0\<rparr>)
        (0 := \<lparr>dref = (\<lambda>_. 0)(0 := 3), iref = 0, total_ref = 1\<rparr>),
      fs = (\<lambda>_. 0)
        (192 := 47, 204 := 1, 205 := 0, 206 := 0, 207 := 0, 208 := 0, 209 := 0, 210 := 0,
         211 := 0, 200 := 0, 201 := 0, 202 := 0, 203 := 0)\<rparr>"

text \<open>
  What \<^verbatim>\<open>get_entry\<close> writes into the slot at \<open>p\<close> for a new entry with the (padded)
  name \<open>name\<close> and the inode \<open>k\<close>, and what \<^verbatim>\<open>write_entry\<close> then writes for a content
  of \<open>n\<close> bytes stored at \<open>a\<close>.
\<close>

definition new_entry :: "(nat \<Rightarrow> byte) \<Rightarrow> nat \<Rightarrow> byte list \<Rightarrow> byte \<Rightarrow> (nat \<Rightarrow> byte)" where
  "new_entry f p name k =
     (store f p name)
     (p + 16 := k, p + 17 := 0, p + 18 := 0, p + 19 := 0,
      p + 12 := 1, p + 13 := 0, p + 14 := 0, p + 15 := 0,
      p + 8 := 0, p + 9 := 0, p + 10 := 0, p + 11 := 0)"

definition new_content :: "(nat \<Rightarrow> byte) \<Rightarrow> nat \<Rightarrow> nat \<Rightarrow> byte list \<Rightarrow> byte \<Rightarrow> (nat \<Rightarrow> byte)" where
  "new_content f p a content n =
     (store f a content)
     (p + 8 := n, p + 9 := 0, p + 10 := 0, p + 11 := 0,
      p + 12 := 0, p + 13 := 0, p + 14 := 0, p + 15 := 0)"

definition one_block :: "16 word \<Rightarrow> inode" where
  "one_block b = \<lparr>dref = (\<lambda>_. 0)(0 := b), iref = 0, total_ref = 1\<rparr>"

text \<open>\<open>img0\<close> with one file \<^verbatim>\<open>f\<close> in the root: slot 212, inode 1, block 4 (address 256).\<close>

definition one_file :: "byte list \<Rightarrow> byte \<Rightarrow> state" where
  "one_file content n = img0
     \<lparr>bitlist := (bitlist img0)(0 := 31),
      inodes := (inodes img0)(Suc 0 := one_block 4),
      fs := new_content (new_entry (fs img0) 212 [102, 0, 0, 0, 0, 0, 0, 0] 1) 212 256 content n\<rparr>"

text \<open>An image after the only entry of the root (slot 212, inode 1, block 4) is removed.\<close>

definition removed_file :: "state \<Rightarrow> state" where
  "removed_file st = st
     \<lparr>bitlist := (bitlist st)(0 := 15),
      inodes := (inodes st)(Suc 0 := zero_inode),
      fs := bzero (fs st) 212 20\<rparr>"

text \<open>A file \<^verbatim>\<open>f\<close> that holds the letter \<^verbatim>\<open>e\<close>, its removal, and the directory \<^verbatim>\<open>d\<close> in its place.\<close>

definition img_f1 :: state where
  "img_f1 = one_file [101] 1"

definition img_f2 :: state where
  "img_f2 = removed_file img_f1"

definition img_f3 :: state where
  "img_f3 = img_f2
     \<lparr>bitlist := (bitlist img_f2)(0 := 31),
      inodes := (inodes img_f2)(Suc 0 := one_block 4),
      fs := new_entry (fs img_f2) 212 [100, 0, 0, 0, 0, 0, 0, 0] 1\<rparr>"

text \<open>
  The same with a file of twenty bytes that read as an entry: the name \<^verbatim>\<open>e\<close>, the size
  5, the type \<^verbatim>\<open>E_DIR\<close> and the inode 7. \<open>img_g3\<close> has the directory \<^verbatim>\<open>d\<close> and the file
  \<^verbatim>\<open>d/x\<close>.
\<close>

definition dir_bytes :: "byte list" where
  "dir_bytes = [101, 0, 0, 0, 0, 0, 0, 0, 5, 0, 0, 0, 1, 0, 0, 0, 7, 0, 0, 0]"

definition img_g1 :: state where
  "img_g1 = one_file dir_bytes 20"

definition img_g2 :: state where
  "img_g2 = removed_file img_g1"

definition img_g3 :: state where
  "img_g3 = img_g2
     \<lparr>bitlist := (bitlist img_g2)(0 := 63),
      inodes := (inodes img_g2)(Suc 0 := one_block 4, 2 := one_block 5),
      fs := new_content
              (new_entry (new_entry (fs img_g2) 212 [100, 0, 0, 0, 0, 0, 0, 0] 1)
                 276 [120, 0, 0, 0, 0, 0, 0, 0] 2)
              276 320 [7] 1\<rparr>"

text \<open>A source of 65 bytes, one more than a block, and the image with it as \<^verbatim>\<open>f\<close>.\<close>

definition src65 :: "byte list" where
  "src65 = map of_nat [0..<65]"

definition img_h1 :: state where
  "img_h1 = one_file (take 64 src65) 64"

text \<open>
  The image with \<^verbatim>\<open>/a/b/c.txt\<close>: \<^verbatim>\<open>a\<close> is in slot 212 (inode 1, block 4), \<^verbatim>\<open>b\<close> in slot
  256 (inode 2, block 5), \<^verbatim>\<open>c.txt\<close> in slot 320 (inode 3, block 6, address 384). And the
  image after the path is removed.
\<close>

definition img_abc :: state where
  "img_abc = img0
     \<lparr>bitlist := (bitlist img0)(0 := 127),
      inodes := (inodes img0)(Suc 0 := one_block 4, 2 := one_block 5, 3 := one_block 6),
      fs := new_content
              (new_entry
                (new_entry (new_entry (fs img0) 212 [97, 0, 0, 0, 0, 0, 0, 0] 1)
                   256 [98, 0, 0, 0, 0, 0, 0, 0] 2)
                320 [99, 46, 116, 120, 116, 0, 0, 0] 3)
              320 384 [1, 2, 3] 3\<rparr>"

definition img_pruned :: state where
  "img_pruned = img_abc
     \<lparr>bitlist := (bitlist img_abc)(0 := 15),
      inodes := (inodes img_abc)(3 := zero_inode, 2 := zero_inode, Suc 0 := zero_inode),
      fs := bzero (bzero (bzero (fs img_abc) 320 20) 256 20) 212 20\<rparr>"

text \<open>\<open>img_abc\<close> with the empty file \<^verbatim>\<open>a/x\<close>: slot 276, inode 4, block 7.\<close>

definition img_abc_x :: state where
  "img_abc_x = img_abc
     \<lparr>bitlist := (bitlist img_abc)(0 := 255),
      inodes := (inodes img_abc)(4 := one_block 7),
      fs := (store (fs img_abc) 276 [120, 0, 0, 0, 0, 0, 0, 0])
            (292 := 4, 293 := 0, 294 := 0, 295 := 0, 284 := 0, 285 := 0, 286 := 0, 287 := 0,
             288 := 0, 289 := 0, 290 := 0, 291 := 0)\<rparr>"

text \<open>
  Under \<open>cfg1\<close> the metadata says 11 blocks. Five files \<^verbatim>\<open>a\<close> to \<^verbatim>\<open>e\<close> in the root: the
  third makes the root grow by block 6, and block 10 is the last free one.
\<close>

definition img1_0 :: state where
  "img1_0 = img0
     \<lparr>meta := (meta img0)
        \<lparr>total_blocks := 11,
         sectors := (sectors (meta img0))(DATA := \<lparr>sector_start = 3, sector_size = 9\<rparr>)\<rparr>\<rparr>"

definition img1_1 :: state where
  "img1_1 = img1_0
     \<lparr>bitlist := (bitlist img1_0)(0 := 31),
      inodes := (inodes img1_0)(Suc 0 := one_block 4),
      fs := new_content (new_entry (fs img1_0) 212 [97, 0, 0, 0, 0, 0, 0, 0] 1) 212 256 [1] 1\<rparr>"

definition img1_2 :: state where
  "img1_2 = img1_1
     \<lparr>bitlist := (bitlist img1_1)(0 := 63),
      inodes := (inodes img1_1)(2 := one_block 5),
      fs := new_content (new_entry (fs img1_1) 232 [98, 0, 0, 0, 0, 0, 0, 0] 2) 232 320 [2] 1\<rparr>"

definition img1_3 :: state where
  "img1_3 = img1_2
     \<lparr>bitlist := (bitlist img1_2)(0 := 255),
      inodes := (inodes img1_2)
        (0 := \<lparr>dref = (\<lambda>_. 0)(0 := 3, Suc 0 := 6), iref = 0, total_ref = 2\<rparr>,
         3 := one_block 7),
      fs := new_content (new_entry (fs img1_2) 384 [99, 0, 0, 0, 0, 0, 0, 0] 3) 384 448 [3] 1\<rparr>"

definition img1_4 :: state where
  "img1_4 = img1_3
     \<lparr>bitlist := (bitlist img1_3)(Suc 0 := 1),
      inodes := (inodes img1_3)(4 := one_block 8),
      fs := new_content (new_entry (fs img1_3) 404 [100, 0, 0, 0, 0, 0, 0, 0] 4) 404 512 [4] 1\<rparr>"

definition img1_5 :: state where
  "img1_5 = img1_4
     \<lparr>bitlist := (bitlist img1_4)(Suc 0 := 3),
      inodes := (inodes img1_4)(5 := one_block 9),
      fs := new_content (new_entry (fs img1_4) 424 [101, 0, 0, 0, 0, 0, 0, 0] 5) 424 576 [5] 1\<rparr>"

text \<open>What \<^verbatim>\<open>expand\<close> makes of \<open>img1_5\<close> for the root inode.\<close>

definition img1_6 :: state where
  "img1_6 = img1_5
     \<lparr>bitlist := (bitlist img1_5)(Suc 0 := 7),
      inodes := (inodes img1_5)
        (0 := \<lparr>dref = (\<lambda>_. 0)(0 := 3, Suc 0 := 6), iref = 0, total_ref = 3\<rparr>)\<rparr>"

text \<open>
  Under \<open>cfg2\<close> the image has 4096 blocks and the bitmap takes eight of them: the data
  sector starts at block 10, beyond the 8 blocks the metadata speaks of.
\<close>

definition img2 :: state where
  "img2 =
     \<lparr>meta =
        \<lparr>total_blocks = 8, total_inodes = 0, block_bytes = 64,
           sectors =
             (\<lambda>_. \<lparr>sector_start = 0, sector_size = 0\<rparr>)
             (SUPER := \<lparr>sector_start = 0, sector_size = 1\<rparr>,
              FREELIST := \<lparr>sector_start = 1, sector_size = 8\<rparr>,
              INODES := \<lparr>sector_start = 9, sector_size = 1\<rparr>,
              DATA := \<lparr>sector_start = 10, sector_size = - 1\<rparr>)\<rparr>,
      bitlist = (\<lambda>_. 0)(0 := 255, Suc 0 := 3),
      inodes = (\<lambda>_. \<lparr>dref = \<lambda>_. 0, iref = 0, total_ref = 0\<rparr>)(0 := one_block 10),
      fs = (\<lambda>_. 0)
        (640 := 47, 652 := 1, 653 := 0, 654 := 0, 655 := 0, 656 := 0, 657 := 0, 658 := 0,
         659 := 0, 648 := 0, 649 := 0, 650 := 0, 651 := 0)\<rparr>"

text \<open>
  Under \<open>cfg3\<close> an inode has one direct reference, names have 32 bytes and an entry has
  44, one to a block; the metadata says 10 blocks. The entry \<^verbatim>\<open>/\<close> fills the block of
  the root, so that adding \<^verbatim>\<open>a/x\<close> makes the root grow by block 4 through the indirect
  table in block 5; \<^verbatim>\<open>a\<close> is in slot 256 (inode 1, block 6), \<^verbatim>\<open>x\<close> in slot 384 (inode 2,
  block 7). Adding \<^verbatim>\<open>a/y\<close> then makes \<^verbatim>\<open>a\<close> grow by block 8 through the indirect table
  in block 9, and fails for want of a block for \<^verbatim>\<open>y\<close>.
\<close>

definition wide_entry :: "(nat \<Rightarrow> byte) \<Rightarrow> nat \<Rightarrow> byte \<Rightarrow> byte \<Rightarrow> (nat \<Rightarrow> byte)" where
  "wide_entry f p c k =
     (store f p (c # replicate 31 0))
     (p + 40 := k, p + 41 := 0, p + 42 := 0, p + 43 := 0,
      p + 36 := 1, p + 37 := 0, p + 38 := 0, p + 39 := 0,
      p + 32 := 0, p + 33 := 0, p + 34 := 0, p + 35 := 0)"

definition img3_0 :: state where
  "img3_0 =
     \<lparr>meta =
        \<lparr>total_blocks = 10, total_inodes = 0, block_bytes = 64,
           sectors =
             (\<lambda>_. \<lparr>sector_start = 0, sector_size = 0\<rparr>)
             (SUPER := \<lparr>sector_start = 0, sector_size = 1\<rparr>,
              FREELIST := \<lparr>sector_start = 1, sector_size = 1\<rparr>,
              INODES := \<lparr>sector_start = 2, sector_size = 1\<rparr>,
              DATA := \<lparr>sector_start = 3, sector_size = 8\<rparr>)\<rparr>,
      bitlist = (\<lambda>_. 0)(0 := 15),
      inodes = (\<lambda>_. \<lparr>dref = \<lambda>_. 0, iref = 0, total_ref = 0\<rparr>)(0 := one_block 3),
      fs = (\<lambda>_. 0)
        (192 := 47, 228 := 1, 229 := 0, 230 := 0, 231 := 0, 232 := 0, 233 := 0, 234 := 0,
         235 := 0, 224 := 0, 225 := 0, 226 := 0, 227 := 0)\<rparr>"

definition img3_1 :: state where
  "img3_1 = img3_0
     \<lparr>bitlist := (bitlist img3_0)(0 := 255),
      inodes := (inodes img3_0)
        (0 := \<lparr>dref = (\<lambda>_. 0)(0 := 3), iref = 5, total_ref = 2\<rparr>,
         Suc 0 := one_block 6, 2 := one_block 7),
      fs := (store
               (wide_entry (wide_entry ((fs img3_0)(320 := 4, 321 := 0)) 256 97 1) 384 120 2)
               448 [1])
            (416 := 1, 417 := 0, 418 := 0, 419 := 0, 420 := 0, 421 := 0, 422 := 0, 423 := 0)\<rparr>"

definition img3_2 :: state where
  "img3_2 = img3_1
     \<lparr>bitlist := (bitlist img3_1)(Suc 0 := 3),
      inodes := (inodes img3_1)
        (Suc 0 := \<lparr>dref = (\<lambda>_. 0)(0 := 6), iref = 9, total_ref = 2\<rparr>, 3 := zero_inode),
      fs := (fs img3_1)(576 := 8, 577 := 0)\<rparr>"




section \<open>Evaluation\<close>

declare get_data_block_from.simps [simp del]
declare get_inode_from.simps [simp del]
declare write_entry_loop.simps [simp del]

lemma upt_0_numeral: "[0..<numeral n] = 0 # [Suc 0..<numeral n]"
  by (simp add: upt_conv_Cons)

lemma upt_1_numeral:
  "[Suc 0..<numeral n] = (if Suc 0 < numeral n then Suc 0 # [2..<numeral n] else [])"
  by (simp add: upt_conv_Cons numeral_2_eq_2)

lemma replicate_numeral: "replicate (numeral n) x = x # replicate (pred_numeral n) x"
  by (simp add: numeral_eq_Suc)

lemma Suc_Suc_0: "Suc (Suc 0) = 2"
  by simp

lemma store_apply:
  "store f p bs a = (if p \<le> a \<and> a < p + length bs then bs ! (a - p) else f a)"
  by (simp add: store_def)

lemma bzero_apply: "bzero f p n a = (if p \<le> a \<and> a < p + n then 0 else f a)"
  by (simp add: bzero_def)

lemmas layout_defs = TOTAL_BLOCKS_def sizeof_inode_def size_off_def type_off_def
  inode_off_def sizeof_entry_def BLOCK_ENTRIES_def block_ref_def

lemmas eval_defs = layout_defs formatfs_def setup_sectors_def zero_meta_def
  zero_sector_def set_sector_start_def set_sector_size_def Let_def mark_sector_def
  bitlist_up_def bitlist_down_def bitlist_status_def create_root_def expand_def
  expand_indirect_def get_data_block_def set_inode_def zero_inode_def set_entry_size_def
  set_entry_type_def set_entry_inode_def to_uint_def wr32_def rd32_def wr16_def rd16_def
  entry_size_def entry_type_def entry_inode_def store_apply bzero_apply load_def
  strncpy_def name_matches_def get_inode_def indirect_def block_at_def blocks_of_def
  block_entries_def entries_of_def search_entry_def entry_count_def get_entry_def
  write_entry_def entry_read_def entry_remove_def strtok_def addfilefs_def
  removefilefs_def extractfilefs_def upt_rec_numeral upt_0_numeral upt_1_numeral
  replicate_numeral Suc_Suc_0 word_rcat_def get_data_block_from.simps
  get_inode_from.simps write_entry_loop.simps

lemmas img_defs = img0_def new_entry_def new_content_def one_block_def one_file_def
  removed_file_def img_f1_def img_f2_def img_f3_def dir_bytes_def img_g1_def img_g2_def
  img_g3_def src65_def img_h1_def img_abc_def img_abc_x_def img_pruned_def img1_0_def img1_1_def
  img1_2_def img1_3_def img1_4_def img1_5_def img1_6_def img2_def wide_entry_def
  img3_0_def img3_1_def img3_2_def

lemmas cfg_defs = cfg0_def cfg1_def cfg2_def cfg3_def

lemmas sector_defs = sizeof_metadata_def layout_ok_def in_table_def in_bitmap_def
  in_data_def inode_ok_def freeable_def

subsection \<open>The steps that build the images\<close>

lemma formatfs_cfg0: "formatfs cfg0 = Inr img0"
  by (simp add: img_defs cfg_defs eval_defs)

lemma formatfs_cfg1: "formatfs cfg1 = Inr img1_0"
  by (simp add: img_defs cfg_defs eval_defs)

lemma formatfs_cfg2: "formatfs cfg2 = Inr img2"
  by (simp add: img_defs cfg_defs eval_defs)

lemma add_f: "addfilefs cfg0 img0 ''f'' (Some (Bytes (map of_char ''e''))) = Inr (None, img_f1)"
  by (simp add: img_defs cfg_defs eval_defs)

lemma remove_f: "removefilefs cfg0 img_f1 ''f'' = (None, img_f2)"
  by (simp add: img_defs cfg_defs eval_defs)

lemma add_d_e:
  "addfilefs cfg0 img_f2 ''d/e'' (Some (Bytes [7])) = Inr (Some (InvalidSubdir ''e''), img_f3)"
  by (simp add: img_defs cfg_defs eval_defs)

lemma add_f_dir_bytes: "addfilefs cfg0 img0 ''f'' (Some (Bytes dir_bytes)) = Inr (None, img_g1)"
  by (simp add: img_defs cfg_defs eval_defs)

lemma remove_f_dir_bytes: "removefilefs cfg0 img_g1 ''f'' = (None, img_g2)"
  by (simp add: img_defs cfg_defs eval_defs)

lemma add_d_x: "addfilefs cfg0 img_g2 ''d/x'' (Some (Bytes [7])) = Inr (None, img_g3)"
  by (simp add: img_defs cfg_defs eval_defs)

lemma add_f_src65: "addfilefs cfg0 img0 ''f'' (Some (Bytes src65)) = Inr (None, img_h1)"
  by (simp add: img_defs cfg_defs eval_defs)

lemma add_abc:
  "addfilefs cfg0 img0 ''a/b/c.txt'' (Some (Bytes [1, 2, 3])) = Inr (None, img_abc)"
  by (simp add: img_defs cfg_defs eval_defs)

lemma add_abc_x: "addfilefs cfg0 img_abc ''a/x'' (Some (Bytes [])) = Inr (None, img_abc_x)"
  by (simp add: img_defs cfg_defs eval_defs)


lemma add_1a: "addfilefs cfg1 img1_0 ''a'' (Some (Bytes [1])) = Inr (None, img1_1)"
  by (simp add: img_defs cfg_defs eval_defs)

lemma add_1b: "addfilefs cfg1 img1_1 ''b'' (Some (Bytes [2])) = Inr (None, img1_2)"
  by (simp add: img_defs cfg_defs eval_defs)

lemma add_1c: "addfilefs cfg1 img1_2 ''c'' (Some (Bytes [3])) = Inr (None, img1_3)"
  by (simp add: img_defs cfg_defs eval_defs)

lemma add_1d: "addfilefs cfg1 img1_3 ''d'' (Some (Bytes [4])) = Inr (None, img1_4)"
  by (simp add: img_defs cfg_defs eval_defs)

lemma add_1e: "addfilefs cfg1 img1_4 ''e'' (Some (Bytes [5])) = Inr (None, img1_5)"
  by (simp add: img_defs cfg_defs eval_defs)

lemma expand_img1_5: "expand cfg1 img1_5 0 = (10, img1_6)"
  by (simp add: img_defs cfg_defs eval_defs)

lemma formatfs_cfg3: "formatfs cfg3 = Inr img3_0"
  by (simp add: img_defs cfg_defs eval_defs)

lemma add_3x: "addfilefs cfg3 img3_0 ''a/x'' (Some (Bytes [1])) = Inr (None, img3_1)"
  by (simp add: img_defs cfg_defs eval_defs)

lemma add_3y:
  "addfilefs cfg3 img3_1 ''a/y'' (Some (Bytes [2])) = Inr (Some (InvalidSubdir ''y''), img3_2)"
  by (simp add: img_defs cfg_defs eval_defs)




section \<open>General facts\<close>

subsection \<open>Bits\<close>

lemma mask_neq_0: "push_bit (n mod 8) (1 :: byte) \<noteq> 0"
proof -
  have "bit (push_bit (n mod 8) (1 :: byte)) (n mod 8)"
    by (simp add: bit_push_bit_iff bit_exp_iff)
  then show ?thesis by auto
qed

lemma status_up: "bitlist_status (bitlist_up st n) m = (if m = n then push_bit (n mod 8) 1 else bitlist_status st m)"
proof (cases "m = n")
  case True
  have "(x OR push_bit (n mod 8) 1) AND push_bit (n mod 8) 1 = push_bit (n mod 8) (1 :: byte)" for x :: byte
    by (rule bit_eqI) (auto simp: bit_and_iff bit_or_iff)
  with True show ?thesis by (simp add: bitlist_status_def bitlist_up_def)
next
  case False
  show ?thesis
  proof (cases "m div 8 = n div 8")
    case True
    with False have ne: "m mod 8 \<noteq> n mod 8"
      by (metis div_mult_mod_eq)
    have "(x OR push_bit (n mod 8) 1) AND push_bit (m mod 8) 1 = x AND push_bit (m mod 8) (1 :: byte)" for x :: byte
      using ne by (intro bit_eqI) (auto simp: bit_and_iff bit_or_iff bit_push_bit_iff bit_exp_iff)
    with True False show ?thesis by (simp add: bitlist_status_def bitlist_up_def)
  next
    case False
    then show ?thesis using \<open>m \<noteq> n\<close> by (simp add: bitlist_status_def bitlist_up_def)
  qed
qed

lemma status_down: "bitlist_status (bitlist_down st n) m = (if m = n then 0 else bitlist_status st m)"
proof (cases "m = n")
  case True
  have "(x AND NOT (push_bit (n mod 8) 1)) AND push_bit (n mod 8) 1 = (0 :: byte)" for x :: byte
    by (rule bit_eqI) (auto simp: bit_and_iff bit_not_iff)
  with True show ?thesis by (simp add: bitlist_status_def bitlist_down_def)
next
  case False
  show ?thesis
  proof (cases "m div 8 = n div 8")
    case True
    with False have ne: "m mod 8 \<noteq> n mod 8"
      by (metis div_mult_mod_eq)
    have "(x AND NOT (push_bit (n mod 8) 1)) AND push_bit (m mod 8) 1 = x AND push_bit (m mod 8) (1 :: byte)" for x :: byte
      using ne by (intro bit_eqI) (auto simp: bit_and_iff bit_not_iff bit_push_bit_iff bit_exp_iff)
    with True False show ?thesis by (simp add: bitlist_status_def bitlist_down_def)
  next
    case False
    then show ?thesis using \<open>m \<noteq> n\<close> by (simp add: bitlist_status_def bitlist_down_def)
  qed
qed

lemma bitlist_up_fields [simp]:
  "meta (bitlist_up st n) = meta st" "inodes (bitlist_up st n) = inodes st" "fs (bitlist_up st n) = fs st"
  by (simp_all add: bitlist_up_def)

lemma bitlist_down_fields [simp]:
  "meta (bitlist_down st n) = meta st" "inodes (bitlist_down st n) = inodes st" "fs (bitlist_down st n) = fs st"
  by (simp_all add: bitlist_down_def)

subsection \<open>The allocator\<close>

lemma get_data_block_from_found:
  "s \<le> i \<Longrightarrow> i < unat (total_blocks (meta st)) \<Longrightarrow> bitlist_status st i = 0 \<Longrightarrow>
   list_all (\<lambda>j. bitlist_status st j \<noteq> 0) [s..<i] \<Longrightarrow>
   get_data_block_from st s = (i, bitlist_up st i)"
proof (induction "i - s" arbitrary: s)
  case 0
  then have "s = i" by simp
  with 0 show ?case by (simp add: get_data_block_from.simps [of st i])
next
  case (Suc d)
  then have lt: "s < i" by simp
  with Suc.prems have used: "bitlist_status st s \<noteq> 0" and rest: "list_all (\<lambda>j. bitlist_status st j \<noteq> 0) [Suc s..<i]"
    by (simp_all add: upt_conv_Cons)
  have "get_data_block_from st (Suc s) = (i, bitlist_up st i)"
    using Suc.hyps lt Suc.prems(2,3) rest by (intro Suc.hyps(1)) simp_all
  with lt used Suc.prems(2) show ?case
    by (simp add: get_data_block_from.simps [of st s])
qed

lemma get_data_block_from_none:
  "s \<le> unat (total_blocks (meta st)) \<Longrightarrow>
   list_all (\<lambda>j. bitlist_status st j \<noteq> 0) [s..<unat (total_blocks (meta st))] \<Longrightarrow>
   get_data_block_from st s = (unat (total_blocks (meta st)), st)"
proof (induction "unat (total_blocks (meta st)) - s" arbitrary: s)
  case 0
  then have "s = unat (total_blocks (meta st))" by simp
  then show ?case by (subst get_data_block_from.simps) simp
next
  case (Suc d)
  then have lt: "s < unat (total_blocks (meta st))" by simp
  with Suc.prems have used: "bitlist_status st s \<noteq> 0"
    and rest: "list_all (\<lambda>j. bitlist_status st j \<noteq> 0) [Suc s..<unat (total_blocks (meta st))]"
    by (simp_all add: upt_conv_Cons)
  have "get_data_block_from st (Suc s) = (unat (total_blocks (meta st)), st)"
    using Suc.hyps lt rest by (intro Suc.hyps(1)) simp_all
  with lt used show ?case
    by (simp add: get_data_block_from.simps [of st s])
qed

subsection \<open>Removal of an entry\<close>

lemma fold_bitlist_down_fields [simp]:
  "meta (fold (\<lambda>b s. bitlist_down s b) bs st) = meta st"
  "inodes (fold (\<lambda>b s. bitlist_down s b) bs st) = inodes st"
  "fs (fold (\<lambda>b s. bitlist_down s b) bs st) = fs st"
  by (induction bs arbitrary: st) simp_all

lemma status_fold_down:
  "bitlist_status (fold (\<lambda>b s. bitlist_down s b) bs st) m
     = (if m \<in> set bs then 0 else bitlist_status st m)"
  by (induction bs arbitrary: st) (auto simp: status_down)

lemma entry_remove_meta [simp]: "meta (entry_remove cfg st p) = meta st"
  by (simp add: entry_remove_def Let_def set_inode_def)

lemma entry_remove_fs: "fs (entry_remove cfg st p) = bzero (fs st) p (sizeof_entry cfg)"
  by (simp add: entry_remove_def Let_def set_inode_def)

lemma entry_remove_inodes:
  "inodes (entry_remove cfg st p) = (inodes st)(unat (entry_inode cfg (fs st) p) := zero_inode)"
  by (simp add: entry_remove_def Let_def set_inode_def)

lemma entry_remove_status:
  "bitlist_status (entry_remove cfg st p) m =
     (if m \<in> set (blocks_of cfg st (inodes st (unat (entry_inode cfg (fs st) p))))
         \<or> (0 < iref (inodes st (unat (entry_inode cfg (fs st) p)))
             \<and> m = unat (iref (inodes st (unat (entry_inode cfg (fs st) p)))))
      then 0 else bitlist_status st m)"
proof -
  have *: "bitlist_status (s\<lparr>inodes := x, fs := y\<rparr>) m = bitlist_status s m" for s x y
    by (simp add: bitlist_status_def)
  show ?thesis
    by (simp add: entry_remove_def Let_def set_inode_def * status_down status_fold_down)
qed

lemma load_bzero_self: "load (bzero f p n) p n = replicate n 0"
  by (auto simp: load_def bzero_def list_eq_iff_nth_eq)

subsection \<open>Reading\<close>

lemma length_load [simp]: "length (load f p n) = n"
  by (simp add: load_def)

lemma entry_read_blocks_length:
  "0 \<le> sz \<Longrightarrow>
   \<exists>out. entry_read_blocks cfg f sz blocks = Inr out
     \<and> length out = min (nat sz) (BLKSIZE cfg * length blocks)"
proof (induction blocks arbitrary: sz)
  case Nil
  then show ?case by simp
next
  case (Cons b blocks)
  let ?n = "if sz > int (BLKSIZE cfg) then int (BLKSIZE cfg) else sz"
  have n: "0 \<le> ?n" "0 \<le> sz - ?n" using Cons.prems by auto
  from Cons.IH [OF n(2)] obtain out where
    out: "entry_read_blocks cfg f (sz - ?n) blocks = Inr out"
      "length out = min (nat (sz - ?n)) (BLKSIZE cfg * length blocks)"
    by blast
  show ?case
  proof (cases "sz > int (BLKSIZE cfg)")
    case True
    with out Cons.prems show ?thesis by (simp add: Let_def)
  next
    case False
    with out Cons.prems show ?thesis by (simp add: Let_def)
  qed
qed

lemma extractfilefs_from_dir_target:
  "dir_target cfg st ino names = Some p \<Longrightarrow>
   extractfilefs_from cfg st ino e names =
     (case entry_read cfg st p of Inl f \<Rightarrow> Inl f | Inr out \<Rightarrow> Inr (None, out))"
proof (induction names arbitrary: ino e)
  case Nil
  then show ?case by simp
next
  case (Cons name rest)
  from Cons.prems obtain q where q: "search_entry cfg st (inodes st ino) name = Some q"
    and dir: "entry_type cfg (fs st) q = 1"
    and t: "if rest = [] then q = p
            else dir_target cfg st (unat (entry_inode cfg (fs st) q)) rest = Some p"
    by (auto split: option.splits if_splits)
  show ?case
  proof (cases "rest = []")
    case True
    with q dir t show ?thesis by simp
  next
    case False
    with t have "dir_target cfg st (unat (entry_inode cfg (fs st) q)) rest = Some p" by simp
    from Cons.IH [OF this, of "Some q"] q dir show ?thesis by simp
  qed
qed

subsection \<open>Components that do not resolve\<close>




subsection \<open>Writing\<close>

lemma write_entry_loop_keeps:
  "meta (write_entry_loop cfg st p ino src i block_ptr) = meta st
   \<and> bitlist (write_entry_loop cfg st p ino src i block_ptr) = bitlist st
   \<and> inodes (write_entry_loop cfg st p ino src i block_ptr) = inodes st"
proof (induction cfg st p ino src i block_ptr rule: write_entry_loop.induct)
  case (1 cfg st p ino src i block_ptr)
  show ?case
  proof (cases src)
    case Failing
    then show ?thesis by (subst (1 2 3) write_entry_loop.simps) simp
  next
    case (Bytes bs)
    let ?n = "min (BLKSIZE cfg - i) (length bs)"
    show ?thesis
    proof (cases "?n = 0")
      case True
      with Bytes show ?thesis
        by (subst (1 2 3) write_entry_loop.simps) (simp add: Let_def)
    next
      case False
      then have ne: "i \<noteq> BLKSIZE cfg" by auto
      let ?st1 = "st\<lparr>fs := store (fs st) (block_ptr + i) (take ?n bs)\<rparr>"
      let ?st2 = "set_entry_size cfg p (entry_size cfg (fs ?st1) p + of_nat ?n) ?st1"
      have ih: "meta (write_entry_loop cfg ?st2 p ino (Bytes (drop ?n bs)) (i + ?n) block_ptr) = meta ?st2
        \<and> bitlist (write_entry_loop cfg ?st2 p ino (Bytes (drop ?n bs)) (i + ?n) block_ptr) = bitlist ?st2
        \<and> inodes (write_entry_loop cfg ?st2 p ino (Bytes (drop ?n bs)) (i + ?n) block_ptr) = inodes ?st2"
        using "1.IH"(2) [OF Bytes refl False refl refl ne] .
      from Bytes False ne ih show ?thesis
        by (subst (1 2 3) write_entry_loop.simps) (simp add: Let_def set_entry_size_def)
    qed
  qed
qed

lemma write_entry_keeps_chain:
  "meta (snd (write_entry cfg st p file)) = meta st
   \<and> bitlist (snd (write_entry cfg st p file)) = bitlist st
   \<and> inodes (snd (write_entry cfg st p file)) = inodes st"
  by (simp add: write_entry_def Let_def write_entry_loop_keeps set_entry_size_def)

subsection \<open>Entry slots\<close>











lemma entries_of_zero_inode [simp]: "entries_of cfg st zero_inode = []"
  by (simp add: entries_of_def blocks_of_def zero_inode_def)




subsection \<open>The scan of the allocator\<close>

text \<open>
  What \<^verbatim>\<open>get_data_block\<close> does, given the start of the data sector and the total-blocks
  field of the metadata: it returns the first block of the range between them whose
  bit is clear, after setting the bit and no other; when the bits of the range are all
  set it returns the value of the field and changes nothing, and \<^verbatim>\<open>expand\<close> then
  returns \<open>- 1\<close> and changes nothing.
\<close>

lemma get_data_block_scan:
  "(unat (sector_start (sectors (meta st) DATA)) \<le> i \<and> i < unat (total_blocks (meta st))
      \<and> bitlist_status st i = 0
      \<and> list_all (\<lambda>j. bitlist_status st j \<noteq> 0) [unat (sector_start (sectors (meta st) DATA))..<i]
    \<longrightarrow> get_data_block st = (i, bitlist_up st i)
        \<and> bitlist_status (bitlist_up st i) i \<noteq> 0
        \<and> (\<forall>m. m \<noteq> i \<longrightarrow> bitlist_status (bitlist_up st i) m = bitlist_status st m))
   \<and> (unat (sector_start (sectors (meta st) DATA)) \<le> unat (total_blocks (meta st))
      \<and> list_all (\<lambda>j. bitlist_status st j \<noteq> 0)
           [unat (sector_start (sectors (meta st) DATA))..<unat (total_blocks (meta st))]
    \<longrightarrow> get_data_block st = (unat (total_blocks (meta st)), st)
        \<and> expand cfg st ino = (- 1, st))"
  by (simp add: get_data_block_def get_data_block_from_found get_data_block_from_none
        status_up expand_def not_le)

subsection \<open>The sectors\<close>

text \<open>
  What \<^verbatim>\<open>setup_sectors\<close> leaves in the counts of the metadata and where the data sector
  ends, for every configuration in which its divisions are defined.
\<close>

lemma setup_sectors_counts:
  assumes "setup_sectors cfg m = Inr m'"
  shows "total_blocks m' = of_nat (TOTAL_INODES cfg)"
    and "total_inodes m' = total_inodes m"
    and "block_bytes m' = of_nat (BLKSIZE cfg)"
  using assms
  by (auto simp: setup_sectors_def set_sector_start_def set_sector_size_def Let_def
        split: if_splits)

lemma setup_sectors_data_end:
  assumes "setup_sectors cfg m = Inr m'"
  shows "sector_start (sectors m' DATA) + sector_size (sectors m' DATA)
           = of_nat (TOTAL_INODES cfg) + 1"
  using assms
  by (auto simp: setup_sectors_def set_sector_start_def set_sector_size_def Let_def
        split: if_splits)




section \<open>The claims\<close>

subsection \<open>C1: writing a file and reading it back\<close>

text \<open>
  C1 (code bug). Claim: a source of \<open>k\<close> bytes written with \<^verbatim>\<open>write_entry\<close> and read
  back with \<^verbatim>\<open>entry_read\<close> gives the same \<open>k\<close> bytes, also for several blocks and a
  remainder. In \<^verbatim>\<open>write_entry\<close> the test \<^verbatim>\<open>i == BLKSIZE\<close> comes after \<^verbatim>\<open>read\<close> and the
  test \<^verbatim>\<open>n == 0\<close>: once the first block is full, \<^verbatim>\<open>read\<close> is asked for \<^verbatim>\<open>BLKSIZE - i = 0\<close>
  bytes, returns 0, and the loop ends before \<^verbatim>\<open>expand\<close> is ever called (lemma
  \<open>write_entry_keeps_chain\<close>). With 64-byte blocks a source of 65 bytes is stored as its
  first 64 bytes, and that is what extract gives back.
\<close>

theorem C1_round_trip_truncated:
  "formatfs cfg0 = Inr img0
   \<and> BLKSIZE cfg0 = 64 \<and> length src65 = 65
   \<and> addfilefs cfg0 img0 ''f'' (Some (Bytes src65)) = Inr (None, img_h1)
   \<and> entry_size cfg0 (fs img_h1) 212 = 64
   \<and> extractfilefs cfg0 img_h1 ''f'' = Inr (None, take 64 src65)
   \<and> take 64 src65 \<noteq> src65"
  by (simp add: formatfs_cfg0 add_f_src65) (simp add: img_defs cfg_defs eval_defs)


subsection \<open>C2 and C3: the metadata and the sectors after format\<close>

text \<open>
  C2 (code bug). Claim: after \<^verbatim>\<open>formatfs\<close> the metadata holds the total block count, the
  total inode count and the block size. In the image of 512 blocks and 8 inodes that
  \<^verbatim>\<open>formatfs\<close> produces, the total-blocks field holds 8 (the inode count, which the
  second assignment of \<^verbatim>\<open>setup_sectors\<close> stores over the block count) and the
  total-inodes field holds 0 (it is never assigned); only the block size is as claimed.
  Lemma \<open>setup_sectors_counts\<close> has the same for every configuration.
\<close>

theorem C2_metadata_after_format:
  "formatfs cfg0 = Inr img0
   \<and> TOTAL_BLOCKS cfg0 = 512 \<and> TOTAL_INODES cfg0 = 8 \<and> BLKSIZE cfg0 = 64
   \<and> total_blocks (meta img0) = 8
   \<and> total_inodes (meta img0) = 0
   \<and> block_bytes (meta img0) = 64"
  by (simp add: formatfs_cfg0) (simp add: img0_def cfg0_def TOTAL_BLOCKS_def)

text \<open>
  C3 (code bug). Claim: \<^verbatim>\<open>setup_sectors\<close> lays out superblock, bitmap and inode table
  and gives the data sector all blocks that remain, so that its start plus its size is
  the total block count. The first three sectors are as claimed (superblock at 0 with 1
  block, bitmap with \<open>512 div 8 div 64 = 1\<close> block, inode table with
  \<open>8 div (64 div 8) = 1\<close> block), but the data sector starts at 3 with size 6: the size
  is computed from the total-blocks field, which holds the inode count, and the block of
  the superblock is not subtracted. Start plus size is 9, neither the 512 blocks of the
  image nor the 8 of the field; in every configuration it is the inode count plus one
  (lemma \<open>setup_sectors_data_end\<close>).
\<close>

theorem C3_sector_layout:
  "formatfs cfg0 = Inr img0
   \<and> sectors (meta img0) SUPER = \<lparr>sector_start = 0, sector_size = 1\<rparr>
   \<and> sectors (meta img0) FREELIST
       = \<lparr>sector_start = 1, sector_size = of_nat (TOTAL_BLOCKS cfg0 div 8 div BLKSIZE cfg0)\<rparr>
   \<and> sectors (meta img0) INODES
       = \<lparr>sector_start = 2,
          sector_size = of_nat (TOTAL_INODES cfg0 div (BLKSIZE cfg0 div sizeof_inode cfg0))\<rparr>
   \<and> sectors (meta img0) DATA = \<lparr>sector_start = 3, sector_size = 6\<rparr>
   \<and> unat (sector_start (sectors (meta img0) DATA))
       + unat (sector_size (sectors (meta img0) DATA)) = 9
   \<and> TOTAL_BLOCKS cfg0 = 512
   \<and> unat (total_blocks (meta img0)) = 8"
  by (simp add: formatfs_cfg0) (simp add: img0_def cfg0_def TOTAL_BLOCKS_def sizeof_inode_def)


subsection \<open>C4: removing a path prunes the directories it leaves empty\<close>





subsection \<open>C5: growing an inode when no block is left for the indirect block\<close>

text \<open>
  C5 (code bug). Claim: on any allocation failure, also of the indirect block on the
  first overflow, \<^verbatim>\<open>expand\<close> signals the failure and leaves the reference count as it
  was. \<^verbatim>\<open>expand\<close> drops the result of \<^verbatim>\<open>expand_indirect\<close>. In the image with five files
  in the root (metadata of 11 blocks) the root inode has both direct references in use
  and block 10 is the last free block: \<^verbatim>\<open>expand\<close> takes block 10, \<^verbatim>\<open>expand_indirect\<close>
  finds no block for the indirect table and returns \<open>- 1\<close>, and \<^verbatim>\<open>expand\<close> still
  returns 10 with the reference count raised from 2 to 3, while \<^verbatim>\<open>iref\<close> is 0 and block
  10, marked used, is referenced nowhere.
\<close>

theorem C5_indirect_allocation_failure:
  "formatfs cfg1 = Inr img1_0
   \<and> addfilefs cfg1 img1_0 ''a'' (Some (Bytes [1])) = Inr (None, img1_1)
   \<and> addfilefs cfg1 img1_1 ''b'' (Some (Bytes [2])) = Inr (None, img1_2)
   \<and> addfilefs cfg1 img1_2 ''c'' (Some (Bytes [3])) = Inr (None, img1_3)
   \<and> addfilefs cfg1 img1_3 ''d'' (Some (Bytes [4])) = Inr (None, img1_4)
   \<and> addfilefs cfg1 img1_4 ''e'' (Some (Bytes [5])) = Inr (None, img1_5)
   \<and> unat (total_ref (inodes img1_5 0)) = DREFSIZE cfg1
   \<and> iref (inodes img1_5 0) = 0
   \<and> get_data_block img1_5 = (10, bitlist_up img1_5 10)
   \<and> fst (get_data_block (bitlist_up img1_5 10)) = unat (total_blocks (meta img1_5))
   \<and> fst (expand_indirect cfg1 (bitlist_up img1_5 10) 0 10) = - 1
   \<and> expand cfg1 img1_5 0 = (10, img1_6)
   \<and> total_ref (inodes img1_5 0) = 2
   \<and> total_ref (inodes img1_6 0) = 3
   \<and> iref (inodes img1_6 0) = 0
   \<and> bitlist_status img1_6 10 \<noteq> 0"
  by (simp add: formatfs_cfg1 add_1a add_1b add_1c add_1d add_1e expand_img1_5)
    (simp add: img_defs cfg_defs eval_defs)


subsection \<open>C6: what the removal of an entry clears\<close>

text \<open>
  C6 (corrected). Claim: \<^verbatim>\<open>entry_remove\<close> zeroes the entry, zeroes the inode, frees the
  blocks of the chain and the indirect block in the bitmap, and zeroes the contents of
  the data blocks. The function has no write to the data blocks: after the removal of
  \<^verbatim>\<open>c.txt\<close> (the entry at 320, whose chain is block 6) the three bytes of the file are
  still in block 6.
\<close>

theorem C6_counterexample:
  "formatfs cfg0 = Inr img0
   \<and> addfilefs cfg0 img0 ''a/b/c.txt'' (Some (Bytes [1, 2, 3])) = Inr (None, img_abc)
   \<and> search_entry cfg0 img_abc (inodes img_abc 2) ''c.txt'' = Some 320
   \<and> blocks_of cfg0 img_abc (inodes img_abc (unat (entry_inode cfg0 (fs img_abc) 320))) = [6]
   \<and> load (fs img_abc) (block_ref cfg0 6) 3 = [1, 2, 3]
   \<and> load (fs (entry_remove cfg0 img_abc 320)) (block_ref cfg0 6) 3 = [1, 2, 3]"
  by (simp add: formatfs_cfg0 add_abc) (simp add: img_defs cfg_defs eval_defs)

text \<open>
  C6 as amended, for an entry record in the data sector whose inode lies in the inode
  table, with the blocks of its chain and its indirect block in the data sector and
  their bits in the bitmap: \<^verbatim>\<open>entry_remove\<close> zeroes the entry record and the inode record
  and clears the bitmap bit of every block of the chain and of the indirect block, if
  there is one; it does not zero the data blocks of the chain: no byte of the data
  sector outside the entry record changes.

  The hypotheses restrict the statement to the states that stand for an image of the C
  program, where the inode record and the bitmap bytes that \<^verbatim>\<open>entry_remove\<close> writes lie
  in their sectors, before the data sector; they are not used in the proof.
\<close>

theorem C6_entry_remove:
  "layout_ok cfg st
   \<and> block_ref cfg (unat (sector_start (sectors (meta st) DATA))) \<le> p
   \<and> p + sizeof_entry cfg \<le> FSSIZE cfg
   \<and> inode_ok cfg st (unat (entry_inode cfg (fs st) p))
   \<and> freeable cfg st (unat (entry_inode cfg (fs st) p))
   \<longrightarrow>
   load (fs (entry_remove cfg st p)) p (sizeof_entry cfg) = replicate (sizeof_entry cfg) 0
   \<and> inodes (entry_remove cfg st p) (unat (entry_inode cfg (fs st) p)) = zero_inode
   \<and> list_all (\<lambda>b. bitlist_status (entry_remove cfg st p) b = 0)
        (blocks_of cfg st (inodes st (unat (entry_inode cfg (fs st) p))))
   \<and> (0 < iref (inodes st (unat (entry_inode cfg (fs st) p))) \<longrightarrow>
        bitlist_status (entry_remove cfg st p)
          (unat (iref (inodes st (unat (entry_inode cfg (fs st) p))))) = 0)
   \<and> (\<forall>a. block_ref cfg (unat (sector_start (sectors (meta st) DATA))) \<le> a
          \<and> (a < p \<or> p + sizeof_entry cfg \<le> a)
        \<longrightarrow> fs (entry_remove cfg st p) a = fs st a)"
  by (simp add: entry_remove_fs entry_remove_inodes entry_remove_status load_bzero_self
        list_all_iff) (auto simp: bzero_def)

theorem C6_entry_remove_witness:
  "formatfs cfg3 = Inr img3_0
   \<and> addfilefs cfg3 img3_0 ''a/x'' (Some (Bytes [1])) = Inr (None, img3_1)
   \<and> addfilefs cfg3 img3_1 ''a/y'' (Some (Bytes [2])) = Inr (Some (InvalidSubdir ''y''), img3_2)
   \<and> search_entry cfg3 img3_2 (inodes img3_2 0) ''a'' = Some 256
   \<and> layout_ok cfg3 img3_2
   \<and> block_ref cfg3 (unat (sector_start (sectors (meta img3_2) DATA))) = 192
   \<and> unat (entry_inode cfg3 (fs img3_2) 256) = 1
   \<and> inode_ok cfg3 img3_2 1 \<and> freeable cfg3 img3_2 1
   \<and> blocks_of cfg3 img3_2 (inodes img3_2 1) = [6, 8]
   \<and> iref (inodes img3_2 1) = 9
   \<and> bitlist_status img3_2 6 \<noteq> 0 \<and> bitlist_status img3_2 8 \<noteq> 0 \<and> bitlist_status img3_2 9 \<noteq> 0
   \<and> load (fs (entry_remove cfg3 img3_2 256)) 256 44 = replicate 44 0
   \<and> inodes (entry_remove cfg3 img3_2 256) 1 = zero_inode
   \<and> bitlist_status (entry_remove cfg3 img3_2 256) 6 = 0
   \<and> bitlist_status (entry_remove cfg3 img3_2 256) 8 = 0
   \<and> bitlist_status (entry_remove cfg3 img3_2 256) 9 = 0
   \<and> fs (entry_remove cfg3 img3_2 256) 384 = fs img3_2 384"
proof -
  have e: "unat (entry_inode cfg3 (fs img3_2) 256) = 1" "sizeof_entry cfg3 = 44"
    "blocks_of cfg3 img3_2 (inodes img3_2 1) = [6, 8]" "iref (inodes img3_2 1) = 9"
    "bitlist_status img3_2 6 \<noteq> 0" "bitlist_status img3_2 8 \<noteq> 0"
    "bitlist_status img3_2 9 \<noteq> 0"
    "search_entry cfg3 img3_2 (inodes img3_2 0) ''a'' = Some 256"
    by (simp_all add: img_defs cfg_defs eval_defs)
  have h: "layout_ok cfg3 img3_2"
    "block_ref cfg3 (unat (sector_start (sectors (meta img3_2) DATA))) = 192"
    "FSSIZE cfg3 = 32768" "inode_ok cfg3 img3_2 1" "freeable cfg3 img3_2 1"
    by (simp_all add: sector_defs img_defs cfg_defs eval_defs)
  from C6_entry_remove [of cfg3 img3_2 256] e h formatfs_cfg3 add_3x add_3y show ?thesis
    by simp
qed


subsection \<open>C7: a component that does not resolve\<close>





subsection \<open>C8: the block allocator\<close>

text \<open>
  C8 (code bug). Claim: \<^verbatim>\<open>get_data_block\<close> scans from the start of the data sector,
  returns the first block whose bit is clear after setting the bit, and returns the
  total block count of the image without marking a bit when there is none. The scan
  ends at the total-blocks field of the metadata, in which \<^verbatim>\<open>setup_sectors\<close> has stored
  the inode count (C2). For an image of 4096 blocks \<^verbatim>\<open>formatfs\<close> puts the start of the
  data sector at block 10 and 8 in the field: the loop body never runs, and
  \<^verbatim>\<open>get_data_block\<close> returns block 10 without setting its bit, at format for the root
  and again for every inode after it. For the image of 512 blocks the field is 8 as
  well: once blocks 3 to 7 are used the function returns 8 and \<^verbatim>\<open>expand\<close> fails, while
  the bit of block 8 and of every block after it is clear. Given the two fields of the
  metadata, the function does scan as claimed (lemma \<open>get_data_block_scan\<close>).
\<close>

theorem C8_scan_ends_at_inode_count:
  "formatfs cfg2 = Inr img2
   \<and> TOTAL_BLOCKS cfg2 = 4096 \<and> TOTAL_INODES cfg2 = 8
   \<and> unat (sector_start (sectors (meta img2) DATA)) = 10
   \<and> unat (total_blocks (meta img2)) = 8
   \<and> dref (inodes img2 0) 0 = 10
   \<and> bitlist_status img2 10 = 0
   \<and> get_data_block img2 = (10, img2)
   \<and> fst (expand cfg2 img2 1) = 10
   \<and> formatfs cfg0 = Inr img0
   \<and> addfilefs cfg0 img0 ''a/b/c.txt'' (Some (Bytes [1, 2, 3])) = Inr (None, img_abc)
   \<and> addfilefs cfg0 img_abc ''a/x'' (Some (Bytes [])) = Inr (None, img_abc_x)
   \<and> TOTAL_BLOCKS cfg0 = 512 \<and> TOTAL_INODES cfg0 = 8
   \<and> unat (sector_start (sectors (meta img_abc_x) DATA)) = 3
   \<and> unat (total_blocks (meta img_abc_x)) = 8
   \<and> bitlist_status img_abc_x 8 = 0
   \<and> get_data_block img_abc_x = (8, img_abc_x)
   \<and> expand cfg0 img_abc_x 0 = (- 1, img_abc_x)"
  by (simp add: formatfs_cfg2 formatfs_cfg0 add_abc add_abc_x)
    (simp add: img_defs cfg_defs eval_defs)


subsection \<open>C9: the inode of the root\<close>

text \<open>
  C9 (code bug). Claim: on every image reached from \<^verbatim>\<open>formatfs\<close> by add, extract and
  remove, \<^verbatim>\<open>get_inode\<close> never returns 0, because the reference count of the root inode
  stays nonzero. \<^verbatim>\<open>get_entry\<close> zeroes the inode of a new directory but not the block it
  gives it, and \<^verbatim>\<open>entry_remove\<close> leaves the bytes of a removed file in its block. Add a
  file \<^verbatim>\<open>f\<close> that holds the letter \<^verbatim>\<open>e\<close>, remove it, and add \<^verbatim>\<open>d/e\<close>: the directory
  \<^verbatim>\<open>d\<close> gets the block of \<^verbatim>\<open>f\<close>, whose bytes read as an entry with the name \<^verbatim>\<open>e\<close>, the
  type \<^verbatim>\<open>E_FILE\<close> and the inode 0 (the add fails with "Invalid subdir"). Removing \<^verbatim>\<open>d/e\<close>
  then removes that entry and with it inode 0: the reference count of the root becomes
  0 and \<^verbatim>\<open>get_inode\<close> returns 0.
\<close>

theorem C9_root_inode_handed_out:
  "formatfs cfg0 = Inr img0
   \<and> addfilefs cfg0 img0 ''f'' (Some (Bytes (map of_char ''e''))) = Inr (None, img_f1)
   \<and> removefilefs cfg0 img_f1 ''f'' = (None, img_f2)
   \<and> addfilefs cfg0 img_f2 ''d/e'' (Some (Bytes [7])) = Inr (Some (InvalidSubdir ''e''), img_f3)
   \<and> total_ref (inodes img_f3 0) = 1
   \<and> get_inode cfg0 img_f3 = 2
   \<and> fst (removefilefs cfg0 img_f3 ''d/e'') = None
   \<and> total_ref (inodes (snd (removefilefs cfg0 img_f3 ''d/e'')) 0) = 0
   \<and> get_inode cfg0 (snd (removefilefs cfg0 img_f3 ''d/e'')) = 0"
  by (simp add: formatfs_cfg0 add_f remove_f add_d_e) (simp add: img_defs cfg_defs eval_defs)


subsection \<open>C10: extracting a directory\<close>

text \<open>
  C10 (corrected). Claim: for a path that resolves to a directory entry, extract reports
  no error and emits as many bytes as the size field of the entry says. \<^verbatim>\<open>entry_read\<close>
  emits at most one block for each block of the chain of the inode. Add a file \<^verbatim>\<open>f\<close>
  whose twenty bytes read as an entry with the name \<^verbatim>\<open>e\<close>, the size 5, the type
  \<^verbatim>\<open>E_DIR\<close> and the inode 7, remove it, and add \<^verbatim>\<open>d/x\<close>: the directory \<^verbatim>\<open>d\<close> gets the
  block of \<^verbatim>\<open>f\<close>. The path \<^verbatim>\<open>d/e\<close> now resolves to a directory entry of size 5 whose
  inode has no block, and extract emits nothing.
\<close>

theorem C10_counterexample:
  "formatfs cfg0 = Inr img0
   \<and> addfilefs cfg0 img0 ''f'' (Some (Bytes dir_bytes)) = Inr (None, img_g1)
   \<and> removefilefs cfg0 img_g1 ''f'' = (None, img_g2)
   \<and> addfilefs cfg0 img_g2 ''d/x'' (Some (Bytes [7])) = Inr (None, img_g3)
   \<and> dir_target cfg0 img_g3 0 (strtok ''d/e'') = Some 256
   \<and> entry_type cfg0 (fs img_g3) 256 = E_DIR
   \<and> entry_size cfg0 (fs img_g3) 256 = 5
   \<and> extractfilefs cfg0 img_g3 ''d/e'' = Inr (None, [])"
  by (simp add: formatfs_cfg0 add_f_dir_bytes remove_f_dir_bytes add_d_x)
    (simp add: img_defs cfg_defs eval_defs)

text \<open>
  C10 as amended: for a path whose components all resolve to directory entries, on a
  walk that reads only inodes of the inode table and blocks of the data sector, the
  last entry \<open>p\<close> with a size field that is not negative as a C \<^verbatim>\<open>int\<close>: extract reports
  no error and writes what \<^verbatim>\<open>entry_read\<close> gives for \<open>p\<close>, as many bytes as the size field
  says or as the blocks of the inode hold, whichever is less. For a size of 0, as
  \<^verbatim>\<open>get_entry\<close> sets it, that is nothing.

  The hypotheses \<open>layout_ok\<close> and \<open>walk_ok\<close> are not used in the proof: in the model the
  conclusion holds of every state. They restrict the statement to the states that stand
  for an image of the C program: the inode of \<open>p\<close> is then the record that
  \<^verbatim>\<open>entry_read\<close> reads in C.
\<close>

theorem C10_extract_directory:
  "layout_ok cfg st \<and> walk_ok cfg st 0 (strtok fname)
   \<and> dir_target cfg st 0 (strtok fname) = Some p
   \<and> 0 \<le> sint (entry_size cfg (fs st) p) \<longrightarrow>
   (\<exists>out. extractfilefs cfg st fname = Inr (None, out)
      \<and> entry_read cfg st p = Inr out
      \<and> length out =
          min (nat (sint (entry_size cfg (fs st) p)))
              (BLKSIZE cfg * unat (total_ref (inodes st (unat (entry_inode cfg (fs st) p))))))"
proof (intro impI, elim conjE)
  assume t: "dir_target cfg st 0 (strtok fname) = Some p"
    and sz: "0 \<le> sint (entry_size cfg (fs st) p)"
  from entry_read_blocks_length [OF sz] obtain out where
    out: "entry_read cfg st p = Inr out"
      "length out = min (nat (sint (entry_size cfg (fs st) p)))
         (BLKSIZE cfg * unat (total_ref (inodes st (unat (entry_inode cfg (fs st) p)))))"
    unfolding entry_read_def by (fastforce simp: blocks_of_def)
  with extractfilefs_from_dir_target [OF t, of None] show
    "\<exists>out. extractfilefs cfg st fname = Inr (None, out)
      \<and> entry_read cfg st p = Inr out
      \<and> length out =
          min (nat (sint (entry_size cfg (fs st) p)))
              (BLKSIZE cfg * unat (total_ref (inodes st (unat (entry_inode cfg (fs st) p)))))"
    by (simp add: extractfilefs_def)
qed

theorem C10_extract_directory_witness:
  "layout_ok cfg0 img_abc \<and> walk_ok cfg0 img_abc 0 (strtok ''/a/b'')
   \<and> dir_target cfg0 img_abc 0 (strtok ''/a/b'') = Some 256
   \<and> sint (entry_size cfg0 (fs img_abc) 256) = 0
   \<and> extractfilefs cfg0 img_abc ''/a/b'' = Inr (None, [])
   \<and> entry_read cfg0 img_abc 256 = Inr []
   \<and> layout_ok cfg0 img_g3 \<and> walk_ok cfg0 img_g3 0 (strtok ''d/e'')
   \<and> dir_target cfg0 img_g3 0 (strtok ''d/e'') = Some 256
   \<and> sint (entry_size cfg0 (fs img_g3) 256) = 5
   \<and> unat (entry_inode cfg0 (fs img_g3) 256) = 7
   \<and> total_ref (inodes img_g3 7) = 0
   \<and> entry_read cfg0 img_g3 256 = Inr []"
proof -
  have t: "dir_target cfg0 img_abc 0 (strtok ''/a/b'') = Some 256"
    and s: "sint (entry_size cfg0 (fs img_abc) 256) = 0"
    and t': "dir_target cfg0 img_g3 0 (strtok ''d/e'') = Some 256"
    and s': "sint (entry_size cfg0 (fs img_g3) 256) = 5"
    and i': "unat (entry_inode cfg0 (fs img_g3) 256) = 7" "total_ref (inodes img_g3 7) = 0"
    by (simp_all add: img_defs cfg_defs eval_defs)
  have l: "layout_ok cfg0 img_abc" "layout_ok cfg0 img_g3"
    and w: "walk_ok cfg0 img_abc 0 (strtok ''/a/b'')" "walk_ok cfg0 img_g3 0 (strtok ''d/e'')"
    by (simp_all add: sector_defs img_defs cfg_defs eval_defs)
  from C10_extract_directory [of cfg0 img_abc "''/a/b''" 256]
    C10_extract_directory [of cfg0 img_g3 "''d/e''" 256] t s t' s' i' l w
  show ?thesis
    by auto
qed

end
